theory Spec2Isabelle
  imports Complex_Main "HOL-Library.Sublist" "HOL-Library.Log_Nat"
begin

section \<open>Weather Wizard: the component logic of App.js\<close>

text \<open>
  App.js is one React component. Its state is four \<open>useState\<close> cells (city, weather,
  loading, error); everything shown is computed from them by the closures
  \<open>getLocalTime\<close>, \<open>getRainTimes\<close>, \<open>weatherData\<close> and \<open>extremeWeather\<close>, and
  \<open>fetchWeather\<close> is the only function that writes them.

  The closures read the state cells from their scope; here each takes what it reads as
  an argument. The host (its time zone and hour cycle) and the two HTTP endpoints are
  arguments as well.
\<close>

subsection \<open>JavaScript strings\<close>

text \<open>
  A JavaScript string is a sequence of UTF-16 code units. \<open>utf16\<close> writes an ASCII
  literal of the source as such a sequence.
\<close>

type_synonym code_unit = nat
type_synonym jsstring = "code_unit list"

definition utf16 :: "string \<Rightarrow> jsstring" where
  "utf16 s = map of_char s"

text \<open>
  \<open>String.prototype.toLowerCase\<close>. On ASCII it maps A-Z to a-z. Two code points outside
  ASCII have a lower case that holds an ASCII letter: U+0130 (i followed by U+0307) and
  U+212A (k). Every other code point outside ASCII maps to code points outside ASCII;
  the Unicode tables are not reproduced, and the model leaves those code units as they
  are.
\<close>

definition toLowerCase_unit :: "code_unit \<Rightarrow> jsstring" where
  "toLowerCase_unit c =
     (if 65 \<le> c \<and> c \<le> 90 then [c + 32]
      else if c = 304 then [105, 775]
      else if c = 8490 then [107]
      else [c])"

definition toLowerCase :: "jsstring \<Rightarrow> jsstring" where
  "toLowerCase s = concat (map toLowerCase_unit s)"

text \<open>
  \<open>String.prototype.toUpperCase\<close>. On ASCII it maps a-z to A-Z. The upper case of a
  code unit outside ASCII comes from Unicode's case tables, which are an argument here:
  \<open>unicodeUpper c\<close> is the upper case of the code unit \<open>c\<close>, one code unit or several
  (U+00E9 gives U+00C9, U+00DF gives SS). A string is upper-cased unit by unit, as
  \<open>toUpperCase\<close> does on a string with no surrogate pair; App.js applies it to
  \<open>charAt(0)\<close>, which is one code unit at most.
\<close>

definition toUpperCase_unit :: "(code_unit \<Rightarrow> jsstring) \<Rightarrow> code_unit \<Rightarrow> jsstring" where
  "toUpperCase_unit unicodeUpper c =
     (if c < 128 then [if 97 \<le> c \<and> c \<le> 122 then c - 32 else c] else unicodeUpper c)"

definition toUpperCase :: "(code_unit \<Rightarrow> jsstring) \<Rightarrow> jsstring \<Rightarrow> jsstring" where
  "toUpperCase unicodeUpper s = concat (map (toUpperCase_unit unicodeUpper) s)"

text \<open>\<open>s.startsWith(p)\<close>, and \<open>s.includes(p)\<close> (named \<open>includes_js\<close> here): \<open>p\<close>
  occurs in \<open>s\<close> at some index.\<close>

fun startsWith :: "jsstring \<Rightarrow> jsstring \<Rightarrow> bool" where
  "startsWith s [] = True"
| "startsWith [] (p # ps) = False"
| "startsWith (c # cs) (p # ps) = (c = p \<and> startsWith cs ps)"

fun includes_js :: "jsstring \<Rightarrow> jsstring \<Rightarrow> bool" where
  "includes_js [] p = (p = [])"
| "includes_js (c # cs) p = (startsWith (c # cs) p \<or> includes_js cs p)"

text \<open>\<open>s.charAt(0)\<close> is the first code unit as a string, or the empty string; \<open>s.slice(1)\<close>
  is the rest.\<close>

definition charAt0 :: "jsstring \<Rightarrow> jsstring" where
  "charAt0 s = take 1 s"

definition slice1 :: "jsstring \<Rightarrow> jsstring" where
  "slice1 s = drop 1 s"

text \<open>
  \<open>String.prototype.trim\<close> removes, at both ends, the code units of ECMAScript's
  WhiteSpace and LineTerminator productions: TAB, VT, FF, SP, NBSP, ZWNBSP, the
  Unicode space separators, LF, CR, LS and PS.
\<close>

definition isWhiteSpace :: "code_unit \<Rightarrow> bool" where
  "isWhiteSpace c =
     (c = 9 \<or> c = 10 \<or> c = 11 \<or> c = 12 \<or> c = 13 \<or> c = 32 \<or> c = 160 \<or> c = 5760
      \<or> (8192 \<le> c \<and> c \<le> 8202) \<or> c = 8232 \<or> c = 8233 \<or> c = 8239 \<or> c = 8287
      \<or> c = 12288 \<or> c = 65279)"

definition trim :: "jsstring \<Rightarrow> jsstring" where
  "trim s = rev (dropWhile isWhiteSpace (rev (dropWhile isWhiteSpace s)))"

subsection \<open>JavaScript numbers\<close>

text \<open>
  A JavaScript number is a binary64 value: a finite one, \<open>NaN\<close> or an infinity. A finite
  one is given by the real number it stands for (the sign of zero is not modelled). The
  numbers of the two responses are JSON numbers, finite; parsing gives each the nearest
  binary64 value, and that value is what a field of a response stands for where the
  code computes with it. Every arithmetic operation rounds its result.
\<close>

datatype jsnum = Num real | NaN | PosInfinity | NegInfinity

text \<open>
  Rounding to binary64, to nearest with ties to even, as every arithmetic operation of
  JavaScript rounds its exact result. \<open>exponent2 x\<close> is the exponent of a positive \<open>x\<close>:
  \<open>2 ^ e \<le> x < 2 ^ (e + 1)\<close>. The grid of binary64 around \<open>x\<close> has the step
  \<open>2 ^ (e - 52)\<close>, with \<open>e\<close> no less than -1022 (below that the numbers are subnormal);
  a result of magnitude \<open>2 ^ 1024\<close> or more is an infinity.
\<close>

definition round_half_even :: "real \<Rightarrow> int" where
  "round_half_even q =
     (let f = \<lfloor>q\<rfloor>; r = q - of_int f
      in if r < 1 / 2 then f else if 1 / 2 < r then f + 1 else if even f then f else f + 1)"

definition exponent2 :: "real \<Rightarrow> int" where
  "exponent2 x =
     (if 1 \<le> x then bitlen \<lfloor>x\<rfloor> - 1 else - bitlen (\<lceil>1 / x\<rceil> - 1))"

definition round64 :: "real \<Rightarrow> jsnum" where
  "round64 x =
     (if x = 0 then Num 0
      else
        (let e = max (exponent2 \<bar>x\<bar>) (- 1022);
             ulp = (if 52 \<le> e then 2 ^ nat (e - 52) else 1 / 2 ^ nat (52 - e));
             r = of_int (round_half_even (x / ulp)) * ulp
         in if 2 ^ 1024 \<le> r then PosInfinity
            else if r \<le> - (2 ^ 1024) then NegInfinity
            else Num r))"


text \<open>\<open>a + b\<close>.\<close>

fun js_add :: "jsnum \<Rightarrow> jsnum \<Rightarrow> jsnum" where
  "js_add (Num a) (Num b) = round64 (a + b)"
| "js_add NaN b = NaN"
| "js_add a NaN = NaN"
| "js_add PosInfinity NegInfinity = NaN"
| "js_add NegInfinity PosInfinity = NaN"
| "js_add PosInfinity b = PosInfinity"
| "js_add NegInfinity b = NegInfinity"
| "js_add (Num a) PosInfinity = PosInfinity"
| "js_add (Num a) NegInfinity = NegInfinity"

text \<open>\<open>a / b\<close> for a finite \<open>b\<close> that is not negative: the length of an array.\<close>

fun js_div :: "jsnum \<Rightarrow> real \<Rightarrow> jsnum" where
  "js_div (Num a) b =
     (if b = 0 then (if a = 0 then NaN else if 0 < a then PosInfinity else NegInfinity)
      else round64 (a / b))"
| "js_div NaN b = NaN"
| "js_div PosInfinity b = PosInfinity"
| "js_div NegInfinity b = NegInfinity"

text \<open>The comparison \<open>a < b\<close> of two numbers; false when either is \<open>NaN\<close>.\<close>

fun js_lt :: "jsnum \<Rightarrow> jsnum \<Rightarrow> bool" where
  "js_lt NaN b = False"
| "js_lt a NaN = False"
| "js_lt (Num a) (Num b) = (a < b)"
| "js_lt (Num a) PosInfinity = True"
| "js_lt (Num a) NegInfinity = False"
| "js_lt PosInfinity b = False"
| "js_lt NegInfinity NegInfinity = False"
| "js_lt NegInfinity b = True"

text \<open>
  \<open>Math.min(...args)\<close> and \<open>Math.max(...args)\<close> as ECMAScript defines them: the result
  starts at \<open>+Infinity\<close> (at \<open>-Infinity\<close> for max), a \<open>NaN\<close> argument makes the result
  \<open>NaN\<close>, and each argument below (above) the result so far replaces it.
\<close>

fun Math_min_from :: "jsnum \<Rightarrow> jsnum list \<Rightarrow> jsnum" where
  "Math_min_from lowest [] = lowest"
| "Math_min_from lowest (n # ns) =
     (if n = NaN then NaN else Math_min_from (if js_lt n lowest then n else lowest) ns)"

definition Math_min :: "jsnum list \<Rightarrow> jsnum" where
  "Math_min args = Math_min_from PosInfinity args"

fun Math_max_from :: "jsnum \<Rightarrow> jsnum list \<Rightarrow> jsnum" where
  "Math_max_from highest [] = highest"
| "Math_max_from highest (n # ns) =
     (if n = NaN then NaN else Math_max_from (if js_lt highest n then n else highest) ns)"

definition Math_max :: "jsnum list \<Rightarrow> jsnum" where
  "Math_max args = Math_max_from NegInfinity args"

subsection \<open>The two responses and the component state\<close>

text \<open>
  The fields of the responses that App.js reads. \<open>weather[0]\<close> of a response is read
  without a check, so the first entry of that array is part of the record.
  \<open>item.rain\<close> may be absent, and so may its key \<open>'3h'\<close>.
\<close>

record current_data =
  name :: jsstring
  cur_dt :: int
  cur_temp :: real
  cur_feels_like :: real
  cur_humidity :: real
  cur_wind_speed :: real
  cur_weather0_main :: jsstring
  cur_weather0_description :: jsstring
  cur_weather0_icon :: jsstring

record forecast_item =
  dt :: int
  main_temp :: real
  weather0_main :: jsstring
  weather0_description :: jsstring
  rain :: "real option option"

record forecast_data =
  list_items :: "forecast_item list"
  city_timezone :: int

record weather_state =
  current :: current_data
  forecast :: forecast_data
  timezoneOffset :: int

record app_state =
  city :: jsstring
  weather :: "weather_state option"
  loading :: bool
  error :: jsstring

subsection \<open>getLocalTime\<close>

text \<open>
  The host: the offset of its time zone from UTC, in seconds, at an instant given in
  milliseconds since the epoch, and whether its default locale uses the 12-hour clock.
  \<open>toLocaleTimeString\<close> is called with no \<open>timeZone\<close> option, so it renders the
  instant in the host's time zone.
\<close>

record host =
  zone_offset :: "int \<Rightarrow> int"
  hour12 :: bool

datatype date = Date int | InvalidDate

text \<open>\<open>new Date(ms)\<close>: a time value beyond 8.64e15 ms in magnitude is an invalid date.\<close>

definition new_Date :: "int \<Rightarrow> date" where
  "new_Date ms = (if \<bar>ms\<bar> \<le> 8640000000000000 then Date ms else InvalidDate)"

definition two_digit :: "int \<Rightarrow> jsstring" where
  "two_digit n = [48 + nat (n div 10), 48 + nat (n mod 10)]"

text \<open>
  \<open>date.toLocaleTimeString([], {hour: '2-digit', minute: '2-digit'})\<close>: the hour and
  the minute of the instant on the host's wall clock, in the 24-hour or the 12-hour
  form (as \<open>en-GB\<close> and \<open>en-US\<close> print them).
\<close>

definition toLocaleTimeString :: "host \<Rightarrow> date \<Rightarrow> jsstring" where
  "toLocaleTimeString h d =
     (case d of
        InvalidDate \<Rightarrow> utf16 ''Invalid Date''
      | Date tv \<Rightarrow>
          (let wall = tv + 1000 * zone_offset h tv;
               hh = (wall div 3600000) mod 24;
               mm = (wall div 60000) mod 60
           in if hour12 h
              then two_digit (if hh mod 12 = 0 then 12 else hh mod 12) @ utf16 '':''
                   @ two_digit mm @ utf16 (if hh < 12 then '' AM'' else '' PM'')
              else two_digit hh @ utf16 '':'' @ two_digit mm))"

definition getLocalTime :: "host \<Rightarrow> int \<Rightarrow> int \<Rightarrow> jsstring" where
  "getLocalTime h timestamp tzOffset =
     toLocaleTimeString h (new_Date ((timestamp + tzOffset) * 1000))"

subsection \<open>getRainTimes and weatherData\<close>

text \<open>The arrow function given to \<open>filter\<close> in \<open>getRainTimes\<close> and, with the same text,
  to \<open>some\<close> in \<open>weatherData\<close>.\<close>

definition isRainMatch :: "forecast_item \<Rightarrow> bool" where
  "isRainMatch item =
     (includes_js (toLowerCase (weather0_main item)) (utf16 ''rain'')
      \<or> includes_js (toLowerCase (weather0_description item)) (utf16 ''rain''))"

record rain_time =
  time :: jsstring
  intensity :: real

text \<open>\<open>item.rain ? item.rain['3h'] || 0 : 0\<close>: a missing \<open>rain\<close>, a missing \<open>'3h'\<close>
  and a falsy \<open>'3h'\<close> all give 0.\<close>

definition rainIntensity :: "forecast_item \<Rightarrow> real" where
  "rainIntensity item =
     (case rain item of
        None \<Rightarrow> 0
      | Some r \<Rightarrow> (case r of None \<Rightarrow> 0 | Some v \<Rightarrow> if v = 0 then 0 else v))"

definition rainTimeOf :: "host \<Rightarrow> int \<Rightarrow> forecast_item \<Rightarrow> rain_time" where
  "rainTimeOf h tzOffset item =
     \<lparr>time = getLocalTime h (dt item) tzOffset, intensity = rainIntensity item\<rparr>"

text \<open>\<open>getRainTimes\<close>: the empty array while there is no weather, else \<open>filter\<close> then
  \<open>map\<close> over \<open>weather.forecast.list\<close>.\<close>

definition getRainTimes :: "host \<Rightarrow> weather_state option \<Rightarrow> rain_time list" where
  "getRainTimes h w =
     (case w of
        None \<Rightarrow> []
      | Some ws \<Rightarrow>
          map (rainTimeOf h (timezoneOffset ws))
            (filter isRainMatch (list_items (forecast ws))))"

record weather_data =
  location :: jsstring
  currentTemp :: real
  avgTemp :: jsnum
  minTemp :: jsnum
  maxTemp :: jsnum
  humidity :: real
  description :: jsstring
  icon :: jsstring
  willRain :: bool
  rainTimes :: "rain_time list"
  currentTime :: jsstring

text \<open>\<open>weatherData = weather && {...}\<close>: null while there is no weather.\<close>

definition weatherData :: "host \<Rightarrow> weather_state option \<Rightarrow> weather_data option" where
  "weatherData h w =
     (case w of
        None \<Rightarrow> None
      | Some ws \<Rightarrow>
          (let items = list_items (forecast ws) in
           Some \<lparr>location = name (current ws),
                 currentTemp = cur_temp (current ws),
                 avgTemp =
                   js_div (foldl (\<lambda>sum item. js_add sum (Num (main_temp item))) (Num 0) items)
                     (real (length items)),
                 minTemp = Math_min (map (\<lambda>item. Num (main_temp item)) items),
                 maxTemp = Math_max (map (\<lambda>item. Num (main_temp item)) items),
                 humidity = cur_humidity (current ws),
                 description = cur_weather0_description (current ws),
                 icon = cur_weather0_icon (current ws),
                 willRain = list_ex isRainMatch items,
                 rainTimes = getRainTimes h w,
                 currentTime = getLocalTime h (cur_dt (current ws)) (timezoneOffset ws)\<rparr>))"

subsection \<open>The description on the card\<close>

text \<open>The child of the description element:
  \<open>description.charAt(0).toUpperCase() + description.slice(1)\<close>.\<close>

definition descriptionText :: "(code_unit \<Rightarrow> jsstring) \<Rightarrow> jsstring \<Rightarrow> jsstring" where
  "descriptionText unicodeUpper d = toUpperCase unicodeUpper (charAt0 d) @ slice1 d"

text \<open>
  The element has the style \<open>styles.description\<close>, whose \<open>textTransform\<close> is
  \<open>'capitalize'\<close>: React Native draws the text with the first letter of every word in
  upper case. A word starts at the start of the text and after white space. The iOS and
  Android renderers also put the rest of a word in lower case; the web renderer (CSS)
  leaves it. The model covers texts of the letters A-Z, a-z and white space.
\<close>

datatype renderer = Native | Web

fun capitalize_from :: "renderer \<Rightarrow> bool \<Rightarrow> jsstring \<Rightarrow> jsstring" where
  "capitalize_from r wordStart [] = []"
| "capitalize_from r wordStart (c # cs) =
     (if wordStart \<and> 97 \<le> c \<and> c \<le> 122 then c - 32
      else if \<not> wordStart \<and> r = Native \<and> 65 \<le> c \<and> c \<le> 90 then c + 32
      else c)
     # capitalize_from r (isWhiteSpace c) cs"

definition textTransform_capitalize :: "renderer \<Rightarrow> jsstring \<Rightarrow> jsstring" where
  "textTransform_capitalize r s = capitalize_from r True s"

text \<open>The description as the card shows it.\<close>

definition shownDescription ::
  "renderer \<Rightarrow> (code_unit \<Rightarrow> jsstring) \<Rightarrow> jsstring \<Rightarrow> jsstring" where
  "shownDescription r unicodeUpper d =
     textTransform_capitalize r (descriptionText unicodeUpper d)"

subsection \<open>extremeWeather\<close>

text \<open>
  A regular expression \<open>/a|b|.../i\<close> whose alternatives are literals, under \<open>test\<close>:
  some alternative matches at some index. With the flag \<open>i\<close> (and without \<open>u\<close>) two
  code units match when \<open>Canonicalize\<close> maps them to the same code unit; it takes the
  upper case of a code unit and never maps a code unit outside ASCII into ASCII. The
  alternatives here are ASCII, so only the images of ASCII code units matter: a-z go to
  A-Z, and a code unit outside ASCII, whatever its image, matches none of them.
\<close>

definition canonicalize :: "code_unit \<Rightarrow> code_unit" where
  "canonicalize c = (if 97 \<le> c \<and> c \<le> 122 then c - 32 else c)"

definition test_ignoreCase :: "jsstring list \<Rightarrow> jsstring \<Rightarrow> bool" where
  "test_ignoreCase alternatives s =
     list_ex (\<lambda>alt. includes_js (map canonicalize s) (map canonicalize alt)) alternatives"

definition severeWords :: "jsstring list" where
  "severeWords =
     [utf16 ''typhoon'', utf16 ''storm'', utf16 ''hurricane'', utf16 ''tornado'',
      utf16 ''severe'']"

text \<open>
  While there is no weather, \<open>weather?.current?.weather[0].main\<close> is \<open>undefined\<close>; the
  comparison is false and \<open>test\<close> is applied to the string \<open>undefined\<close>.
\<close>

definition extremeWeather :: "weather_state option \<Rightarrow> bool" where
  "extremeWeather w =
     ((case w of
         None \<Rightarrow> False
       | Some ws \<Rightarrow> cur_weather0_main (current ws) = utf16 ''Extreme'')
      \<or> test_ignoreCase severeWords
           (case w of
              None \<Rightarrow> utf16 ''undefined''
            | Some ws \<Rightarrow> cur_weather0_description (current ws)))"

subsection \<open>fetchWeather\<close>

text \<open>
  The two endpoints, each a function of the query \<open>q\<close>: \<open>None\<close> when \<open>axios.get\<close>
  rejects. \<open>fetchWeather\<close> returns the state once it has settled, with the requests it
  issued, in order. The second request is issued only after the first has resolved; a
  rejection of either leaves the weather as it was.
\<close>

record gateway =
  get_weather :: "jsstring \<Rightarrow> current_data option"
  get_forecast :: "jsstring \<Rightarrow> forecast_data option"

datatype request = WeatherRequest jsstring | ForecastRequest jsstring

text \<open>The two messages: the text, then the surrogate pair of its emoji.\<close>

definition msgEnterCity :: jsstring where
  "msgEnterCity = utf16 ''Please enter a city '' @ [55356, 57101]"

definition msgNotFound :: jsstring where
  "msgNotFound = utf16 ''City not found! Try again '' @ [55358, 56784]"

definition fetchWeather :: "gateway \<Rightarrow> app_state \<Rightarrow> app_state \<times> request list" where
  "fetchWeather gw st =
     (if trim (city st) = [] then (st\<lparr>error := msgEnterCity\<rparr>, [])
      else
        (let st1 = st\<lparr>loading := True, error := []\<rparr> in
         case get_weather gw (city st) of
           None \<Rightarrow>
             (st1\<lparr>error := msgNotFound, loading := False\<rparr>, [WeatherRequest (city st)])
         | Some response \<Rightarrow>
             (case get_forecast gw (city st) of
                None \<Rightarrow>
                  (st1\<lparr>error := msgNotFound, loading := False\<rparr>,
                   [WeatherRequest (city st), ForecastRequest (city st)])
              | Some fc \<Rightarrow>
                  (st1\<lparr>weather := Some \<lparr>current = response, forecast = fc,
                                         timezoneOffset = city_timezone fc\<rparr>,
                       loading := False\<rparr>,
                   [WeatherRequest (city st), ForecastRequest (city st)]))))"

subsection \<open>Containment up to letter case\<close>

text \<open>
  What it means for a string to contain a word case-insensitively, stated without
  reference to the code: some contiguous part of the string agrees with the word up to
  the case of the letters A-Z.
\<close>

definition sameLetter :: "code_unit \<Rightarrow> code_unit \<Rightarrow> bool" where
  "sameLetter a b =
     (a = b \<or> (65 \<le> a \<and> a \<le> 90 \<and> b = a + 32) \<or> (65 \<le> b \<and> b \<le> 90 \<and> a = b + 32))"

definition containsIgnoringCase :: "jsstring \<Rightarrow> jsstring \<Rightarrow> bool" where
  "containsIgnoringCase s w = (\<exists>ps mid ss. s = ps @ mid @ ss \<and> list_all2 sameLetter mid w)"

subsection \<open>Sample inputs\<close>

text \<open>Two hosts on the 24-hour clock: one in UTC, one eight hours east of it.\<close>

definition hostUTC :: host where
  "hostUTC = \<lparr>zone_offset = (\<lambda>t. 0), hour12 = False\<rparr>"

definition hostMacau :: host where
  "hostMacau = \<lparr>zone_offset = (\<lambda>t. 28800), hour12 = False\<rparr>"

text \<open>
  A forecast of eight points, three hours apart, with the temperatures 10, 12, ..., 24.
  The points at the indices 2 and 5 are the rainy ones: the first by its \<open>main\<close>, with
  a rain volume of 2.3, the second by its description only, with no \<open>rain\<close> key.
\<close>

definition examplePoint ::
  "int \<Rightarrow> real \<Rightarrow> string \<Rightarrow> string \<Rightarrow> real option option \<Rightarrow> forecast_item" where
  "examplePoint t temp m d r =
     \<lparr>dt = t, main_temp = temp, weather0_main = utf16 m, weather0_description = utf16 d,
      rain = r\<rparr>"

definition exampleItems :: "forecast_item list" where
  "exampleItems =
     [examplePoint 1700006400 10 ''Clouds'' ''overcast clouds'' None,
      examplePoint 1700017200 12 ''Clear'' ''clear sky'' None,
      examplePoint 1700028000 14 ''Rain'' ''light rain'' (Some (Some 2.3)),
      examplePoint 1700038800 16 ''Clouds'' ''broken clouds'' None,
      examplePoint 1700049600 18 ''Clear'' ''clear sky'' None,
      examplePoint 1700060400 20 ''Clouds'' ''light rain'' None,
      examplePoint 1700071200 22 ''Clouds'' ''few clouds'' None,
      examplePoint 1700082000 24 ''Clear'' ''clear sky'' None]"

definition exampleCurrent :: current_data where
  "exampleCurrent =
     \<lparr>name = utf16 ''Macau'', cur_dt = 1700000000, cur_temp = 21.5, cur_feels_like = 21.2,
      cur_humidity = 60, cur_wind_speed = 3.6, cur_weather0_main = utf16 ''Clouds'',
      cur_weather0_description = utf16 ''severe thunderstorm warning'',
      cur_weather0_icon = utf16 ''11d''\<rparr>"

definition exampleWeather :: weather_state where
  "exampleWeather =
     \<lparr>current = exampleCurrent,
      forecast = \<lparr>list_items = exampleItems, city_timezone = 28800\<rparr>,
      timezoneOffset = 28800\<rparr>"

definition exampleEmptyWeather :: weather_state where
  "exampleEmptyWeather =
     \<lparr>current = exampleCurrent,
      forecast = \<lparr>list_items = [], city_timezone = 28800\<rparr>,
      timezoneOffset = 28800\<rparr>"



text \<open>
  The part of Unicode's upper-case table for the code units U+0080 to U+00FF. (The
  code units above are left as they are: the sample is for texts within that range.)
\<close>

definition latin1Upper :: "code_unit \<Rightarrow> jsstring" where
  "latin1Upper c =
     (if c = 181 then [924]
      else if c = 223 then [83, 83]
      else if c = 255 then [376]
      else if 224 \<le> c \<and> c \<le> 254 \<and> c \<noteq> 247 then [c - 32]
      else [c])"

definition exampleGateway :: gateway where
  "exampleGateway =
     \<lparr>get_weather = (\<lambda>q. Some exampleCurrent),
      get_forecast = (\<lambda>q. Some \<lparr>list_items = exampleItems, city_timezone = 28800\<rparr>)\<rparr>"

definition exampleState :: "string \<Rightarrow> app_state" where
  "exampleState c = \<lparr>city = utf16 c, weather = None, loading = False, error = []\<rparr>"

section \<open>Properties\<close>

subsection \<open>Strings\<close>

lemma startsWith_prefix: "startsWith s p \<longleftrightarrow> prefix p s"
  by (induction s p rule: startsWith.induct) auto

lemma includes_js_sublist: "includes_js s p \<longleftrightarrow> sublist p s"
proof (induction s)
  case Nil
  show ?case by simp
next
  case (Cons c cs)
  show ?case
    by (simp only: includes_js.simps startsWith_prefix Cons.IH sublist_Cons_right)
qed

lemma trim_empty_iff: "trim s = [] \<longleftrightarrow> list_all isWhiteSpace s"
proof
  assume "trim s = []"
  then have all: "\<forall>x \<in> set (dropWhile isWhiteSpace s). isWhiteSpace x"
    by (simp add: trim_def)
  have "dropWhile isWhiteSpace s = []"
  proof (rule ccontr)
    assume ne: "dropWhile isWhiteSpace s \<noteq> []"
    then have "\<not> isWhiteSpace (hd (dropWhile isWhiteSpace s))"
      by (rule hd_dropWhile)
    moreover have "hd (dropWhile isWhiteSpace s) \<in> set (dropWhile isWhiteSpace s)"
      using ne by (rule hd_in_set)
    ultimately show False using all by blast
  qed
  then show "list_all isWhiteSpace s"
    by (simp add: list_all_iff)
next
  assume "list_all isWhiteSpace s"
  then have d: "dropWhile isWhiteSpace s = []"
    by (simp add: list_all_iff)
  show "trim s = []" unfolding trim_def d by simp
qed

lemma canonicalize_sameLetter: "canonicalize a = canonicalize b \<longleftrightarrow> sameLetter a b"
  unfolding canonicalize_def sameLetter_def by auto

lemma map_canonicalize_eq:
  "map canonicalize xs = map canonicalize ys \<longleftrightarrow> list_all2 sameLetter xs ys"
proof (induction xs arbitrary: ys)
  case Nil
  show ?case by auto
next
  case (Cons x xs)
  show ?case
    by (cases ys) (simp_all add: Cons.IH canonicalize_sameLetter)
qed

lemma includes_js_canonicalize:
  "includes_js (map canonicalize s) (map canonicalize w) \<longleftrightarrow> containsIgnoringCase s w"
proof
  assume "includes_js (map canonicalize s) (map canonicalize w)"
  then obtain ps ss where "map canonicalize s = ps @ map canonicalize w @ ss"
    by (auto simp: includes_js_sublist sublist_def)
  then have "\<exists>us vs. s = us @ vs \<and> ps = map canonicalize us
      \<and> map canonicalize w @ ss = map canonicalize vs"
    by (simp only: map_eq_append_conv)
  then obtain ps' rest where s: "s = ps' @ rest"
    and rest: "map canonicalize w @ ss = map canonicalize rest"
    by blast
  from rest have "\<exists>us vs. rest = us @ vs \<and> map canonicalize w = map canonicalize us
      \<and> ss = map canonicalize vs"
    by (simp only: append_eq_map_conv)
  then obtain mid ss' where "rest = mid @ ss'"
    and "map canonicalize mid = map canonicalize w"
    by auto
  with s show "containsIgnoringCase s w"
    unfolding containsIgnoringCase_def map_canonicalize_eq by blast
next
  assume "containsIgnoringCase s w"
  then obtain ps mid ss where s: "s = ps @ mid @ ss" and "list_all2 sameLetter mid w"
    unfolding containsIgnoringCase_def by blast
  then have "map canonicalize mid = map canonicalize w"
    by (simp add: map_canonicalize_eq)
  then have "map canonicalize s = map canonicalize ps @ map canonicalize w @ map canonicalize ss"
    using s by simp
  then show "includes_js (map canonicalize s) (map canonicalize w)"
    unfolding includes_js_sublist sublist_def by blast
qed

subsection \<open>The local time\<close>

text \<open>
  On a host with the 24-hour clock, and within the range of valid dates, the string is
  the wall-clock hour and minute of \<open>timestamp + tzOffset\<close> seconds moved by the
  host's own zone offset.
\<close>

lemma getLocalTime_wall_clock:
  assumes "\<bar>(t + off) * 1000\<bar> \<le> 8640000000000000" and "\<not> hour12 h"
  shows "getLocalTime h t off =
     (let wall = t + off + zone_offset h ((t + off) * 1000)
      in two_digit ((wall div 3600) mod 24) @ utf16 '':'' @ two_digit ((wall div 60) mod 60))"
proof -
  let ?z = "zone_offset h ((t + off) * 1000)"
  have eq: "(t + off) * 1000 + 1000 * ?z = 1000 * (t + off + ?z)"
    by (simp add: algebra_simps)
  have hh: "(1000 * (t + off + ?z)) div 3600000 = (t + off + ?z) div 3600"
    using div_mult_mult1 [of "1000::int" "t + off + ?z" 3600] by simp
  have mm: "(1000 * (t + off + ?z)) div 60000 = (t + off + ?z) div 60"
    using div_mult_mult1 [of "1000::int" "t + off + ?z" 60] by simp
  show ?thesis
    using assms
    by (simp add: getLocalTime_def new_Date_def toLocaleTimeString_def Let_def eq hh mm
          del: distrib_right_numeral distrib_left_numeral)
qed

text \<open>
  Claim C1. \<open>getLocalTime\<close> renders the instant \<open>timestamp + timezoneOffset\<close> with
  \<open>toLocaleTimeString\<close> and no \<open>timeZone\<close> option, so the host's own zone is applied
  on top of the offset. For the forecast time 1700000000 (22:13 UTC) and the offset of
  Macau, 28800 s, the local time there is 06:13: a host in UTC prints it, a host in
  Macau's zone prints 14:13.
\<close>

theorem getLocalTime_shifted_by_host_zone:
  "getLocalTime hostUTC 1700000000 28800 = utf16 ''06:13''
   \<and> getLocalTime hostMacau 1700000000 28800 = utf16 ''14:13''"
  by (simp add: getLocalTime_def new_Date_def toLocaleTimeString_def hostUTC_def
        hostMacau_def two_digit_def utf16_def Let_def)

subsection \<open>Rain\<close>

lemma isRainMatch_sublist:
  "isRainMatch item \<longleftrightarrow>
     sublist (utf16 ''rain'') (toLowerCase (weather0_main item))
     \<or> sublist (utf16 ''rain'') (toLowerCase (weather0_description item))"
  by (simp add: isRainMatch_def includes_js_sublist)

lemma weatherData_willRain:
  "weatherData h (Some ws) = Some wd \<Longrightarrow>
   willRain wd = list_ex isRainMatch (list_items (forecast ws))"
  by (auto simp: weatherData_def Let_def)

lemma weatherData_example:
  "weatherData hostUTC (Some exampleWeather) =
     Some (the (weatherData hostUTC (Some exampleWeather)))"
  by (simp add: weatherData_def Let_def)

lemma willRain_example: "willRain (the (weatherData hostUTC (Some exampleWeather)))"
  by (simp add: weatherData_def Let_def exampleWeather_def exampleItems_def
        examplePoint_def isRainMatch_def toLowerCase_def toLowerCase_unit_def utf16_def)

text \<open>
  Claim C3. \<open>willRain\<close> holds exactly when some point of the forecast has the word
  \<open>rain\<close> as a contiguous part of its lower-cased \<open>main\<close> or of its lower-cased
  description; either field is enough.
\<close>

theorem willRain_iff_some_point_matches:
  assumes "weatherData h (Some ws) = Some wd"
  shows "willRain wd \<longleftrightarrow>
     (\<exists>item \<in> set (list_items (forecast ws)).
        sublist (utf16 ''rain'') (toLowerCase (weather0_main item))
        \<or> sublist (utf16 ''rain'') (toLowerCase (weather0_description item)))"
  using assms by (simp add: weatherData_willRain list_ex_iff isRainMatch_sublist)

theorem willRain_iff_some_point_matches_witness:
  "willRain (the (weatherData hostUTC (Some exampleWeather)))
   \<and> (\<exists>item \<in> set (list_items (forecast exampleWeather)).
        sublist (utf16 ''rain'') (toLowerCase (weather0_main item))
        \<or> sublist (utf16 ''rain'') (toLowerCase (weather0_description item)))"
  using willRain_iff_some_point_matches [OF weatherData_example] willRain_example
  by blast

text \<open>
  Claim C10. \<open>willRain\<close> holds exactly when \<open>getRainTimes\<close> returns a non-empty list
  for the same weather, and that list is the one \<open>weatherData\<close> carries as \<open>rainTimes\<close>.
\<close>

theorem willRain_iff_rain_times_nonempty:
  assumes "weatherData h (Some ws) = Some wd"
  shows "(willRain wd \<longleftrightarrow> getRainTimes h (Some ws) \<noteq> [])
         \<and> rainTimes wd = getRainTimes h (Some ws)"
proof
  have "willRain wd = list_ex isRainMatch (list_items (forecast ws))"
    using assms by (rule weatherData_willRain)
  also have "\<dots> \<longleftrightarrow> filter isRainMatch (list_items (forecast ws)) \<noteq> []"
    by (simp add: list_ex_iff filter_empty_conv)
  also have "\<dots> \<longleftrightarrow> getRainTimes h (Some ws) \<noteq> []"
    by (simp add: getRainTimes_def)
  finally show "willRain wd \<longleftrightarrow> getRainTimes h (Some ws) \<noteq> []" .
  show "rainTimes wd = getRainTimes h (Some ws)"
    using assms by (auto simp: weatherData_def Let_def)
qed

theorem willRain_iff_rain_times_nonempty_witness:
  "willRain (the (weatherData hostUTC (Some exampleWeather)))
   \<and> getRainTimes hostUTC (Some exampleWeather) \<noteq> []"
  using willRain_iff_rain_times_nonempty [OF weatherData_example] willRain_example
  by blast

lemma filter_by_index:
  "filter P xs = map (\<lambda>i. xs ! i) (filter (\<lambda>i. P (xs ! i)) [0..<length xs])"
proof (induction xs rule: rev_induct)
  case Nil
  show ?case by simp
next
  case (snoc x xs)
  have "filter (\<lambda>i. P ((xs @ [x]) ! i)) [0..<length xs] = filter (\<lambda>i. P (xs ! i)) [0..<length xs]"
    by (rule filter_cong) (simp_all add: nth_append)
  moreover have "map (\<lambda>i. (xs @ [x]) ! i) (filter (\<lambda>i. P (xs ! i)) [0..<length xs])
      = map (\<lambda>i. xs ! i) (filter (\<lambda>i. P (xs ! i)) [0..<length xs])"
    by (rule map_cong) (simp_all add: nth_append)
  ultimately show ?case using snoc.IH by (simp add: nth_append)
qed

text \<open>
  Claim C4. \<open>getRainTimes\<close> returns one entry for each index of the forecast whose
  point matches the rain predicate, in increasing order of the index, each entry made
  from the point at that index. When the indices 2 and 5 are the matching ones, the
  result has two entries: the one of index 2, then the one of index 5.
\<close>

theorem getRainTimes_matching_indices_in_order:
  "getRainTimes h (Some ws) =
     map (\<lambda>i. rainTimeOf h (timezoneOffset ws) (list_items (forecast ws) ! i))
       (filter (\<lambda>i. isRainMatch (list_items (forecast ws) ! i))
          [0..<length (list_items (forecast ws))])"
proof -
  have "getRainTimes h (Some ws) =
      map (rainTimeOf h (timezoneOffset ws)) (filter isRainMatch (list_items (forecast ws)))"
    by (simp add: getRainTimes_def)
  also have "\<dots> = map (rainTimeOf h (timezoneOffset ws))
      (map (\<lambda>i. list_items (forecast ws) ! i)
        (filter (\<lambda>i. isRainMatch (list_items (forecast ws) ! i))
          [0..<length (list_items (forecast ws))]))"
    by (subst filter_by_index) (rule refl)
  finally show ?thesis by (simp add: comp_def)
qed

theorem getRainTimes_matching_indices_in_order_witness:
  "getRainTimes hostUTC (Some exampleWeather) =
     [rainTimeOf hostUTC 28800 (exampleItems ! 2), rainTimeOf hostUTC 28800 (exampleItems ! 5)]"
  by (subst getRainTimes_matching_indices_in_order)
     (simp add: exampleWeather_def exampleItems_def examplePoint_def isRainMatch_def
        toLowerCase_def toLowerCase_unit_def utf16_def)

text \<open>
  Claim C5. The intensity of each rain time is the rain volume \<open>rain['3h']\<close> of the
  matching point it was made from when the point has one, and 0 when it has none.
\<close>

theorem rain_time_intensity:
  "map intensity (getRainTimes h (Some ws)) =
     map (\<lambda>item. case rain item of Some (Some v) \<Rightarrow> v | _ \<Rightarrow> 0)
       (filter isRainMatch (list_items (forecast ws)))"
  by (auto simp: getRainTimes_def rainTimeOf_def rainIntensity_def comp_def
           split: option.splits)

theorem rain_time_intensity_witness:
  "map intensity (getRainTimes hostUTC (Some exampleWeather)) = [2.3, 0]"
  by (subst rain_time_intensity)
     (simp add: exampleWeather_def exampleItems_def examplePoint_def isRainMatch_def
        toLowerCase_def toLowerCase_unit_def utf16_def)

subsection \<open>Temperature statistics\<close>


text \<open>\<open>exponent2\<close> is the binary exponent: it brackets a positive number between two
  consecutive powers of two.\<close>

lemma exponent2_bounds:
  assumes "0 < x"
  shows "2 powi exponent2 x \<le> x \<and> x < 2 powi (exponent2 x + 1)"
proof (cases "1 \<le> x")
  case True
  let ?n = "\<lfloor>x\<rfloor>"
  have n: "0 < ?n" using True by simp
  have e: "exponent2 x = bitlen ?n - 1" using True by (simp add: exponent2_def)
  have b: "2 ^ nat (bitlen ?n - 1) \<le> ?n" "?n < 2 ^ nat (bitlen ?n)"
    using bitlen_bounds [OF n] by simp_all
  have pos: "1 \<le> bitlen ?n" using n by (simp add: bitlen_alt_def)
  have lo: "(2::real) ^ nat (bitlen ?n - 1) \<le> x"
  proof -
    have "(2::real) ^ nat (bitlen ?n - 1) = of_int (2 ^ nat (bitlen ?n - 1))" by simp
    also have "\<dots> \<le> of_int ?n" using b(1) by (simp only: of_int_le_iff)
    also have "\<dots> \<le> x" by simp
    finally show ?thesis .
  qed
  have hi: "x < (2::real) ^ nat (bitlen ?n)"
  proof -
    have "?n + 1 \<le> 2 ^ nat (bitlen ?n)" using b(2) by simp
    then have "of_int (?n + 1) \<le> (of_int (2 ^ nat (bitlen ?n)) :: real)"
      by (simp only: of_int_le_iff)
    then have a: "real_of_int ?n + 1 \<le> 2 ^ nat (bitlen ?n)" by simp
    have "x < real_of_int ?n + 1" by linarith
    then show ?thesis using a by (rule less_le_trans)
  qed
  have p1: "(2::real) powi (bitlen ?n - 1) = 2 ^ nat (bitlen ?n - 1)"
    using pos by (simp add: power_int_def)
  have p2: "(2::real) powi (bitlen ?n - 1 + 1) = 2 ^ nat (bitlen ?n)"
    using pos by (simp add: power_int_def)
  show ?thesis unfolding e p1 p2 using lo hi by simp
next
  case False
  let ?m = "\<lceil>1 / x\<rceil>"
  have x1: "x < 1" using False by simp
  have inv: "1 < 1 / x" using assms x1 by simp
  have m: "2 \<le> ?m" using inv by linarith
  then have m1: "0 < ?m - 1" by simp
  let ?k = "bitlen (?m - 1)"
  have e: "exponent2 x = - ?k" using False by (simp add: exponent2_def)
  have b: "2 ^ nat (?k - 1) \<le> ?m - 1" "?m - 1 < 2 ^ nat ?k"
    using bitlen_bounds [OF m1] by simp_all
  have pos: "1 \<le> ?k" using m1 by (simp add: bitlen_alt_def)
  have up: "1 / x \<le> (2::real) ^ nat ?k"
  proof -
    have "?m \<le> 2 ^ nat ?k" using b(2) by simp
    then have "of_int ?m \<le> (of_int (2 ^ nat ?k) :: real)" by (simp only: of_int_le_iff)
    then have a: "real_of_int ?m \<le> 2 ^ nat ?k" by simp
    have "1 / x \<le> real_of_int ?m" by (rule le_of_int_ceiling)
    then show ?thesis using a by (rule order_trans)
  qed
  have down: "(2::real) ^ nat (?k - 1) < 1 / x"
  proof -
    have "of_int (2 ^ nat (?k - 1)) \<le> (of_int (?m - 1) :: real)"
      using b(1) by (simp only: of_int_le_iff)
    then have a: "2 ^ nat (?k - 1) \<le> real_of_int ?m - 1" by simp
    have "real_of_int ?m - 1 < 1 / x"
      using ceiling_correct [of "1 / x"] by simp
    with a show ?thesis by (rule le_less_trans)
  qed
  have lo: "1 / (2::real) ^ nat ?k \<le> x"
    using up assms by (simp add: field_simps)
  have hi: "x < 1 / (2::real) ^ nat (?k - 1)"
    using down assms by (simp add: field_simps)
  have p1: "(2::real) powi (- ?k) = 1 / 2 ^ nat ?k"
    using pos by (simp add: power_int_def field_simps)
  have p2: "(2::real) powi (- ?k + 1) = 1 / 2 ^ nat (?k - 1)"
  proof -
    have "- ?k + 1 = - (?k - 1)" by simp
    then show ?thesis using pos by (simp add: power_int_def field_simps nat_diff_distrib)
  qed
  show ?thesis unfolding e p1 p2 using lo hi by simp
qed











text \<open>
  Claim C2. With an empty forecast list \<open>weatherData\<close> still yields its object, for
  every current-conditions value, offset and host: \<open>avgTemp\<close> is \<open>NaN\<close> (0 / 0),
  \<open>minTemp\<close> is \<open>+Infinity\<close> (\<open>Math.min()\<close>) and \<open>maxTemp\<close> is \<open>-Infinity\<close>
  (\<open>Math.max()\<close>); there is no rain and no rain time.
\<close>

theorem empty_forecast_statistics:
  assumes "list_items (forecast ws) = []"
  shows "\<exists>wd. weatherData h (Some ws) = Some wd
           \<and> avgTemp wd = NaN \<and> minTemp wd = PosInfinity \<and> maxTemp wd = NegInfinity
           \<and> \<not> willRain wd \<and> rainTimes wd = []"
  using assms
  by (simp add: weatherData_def Let_def Math_min_def Math_max_def getRainTimes_def)

theorem empty_forecast_statistics_witness:
  "weatherData hostUTC (Some exampleEmptyWeather) \<noteq> None
   \<and> avgTemp (the (weatherData hostUTC (Some exampleEmptyWeather))) = NaN
   \<and> minTemp (the (weatherData hostUTC (Some exampleEmptyWeather))) = PosInfinity
   \<and> maxTemp (the (weatherData hostUTC (Some exampleEmptyWeather))) = NegInfinity"
proof -
  have empty: "list_items (forecast exampleEmptyWeather) = []"
    by (simp add: exampleEmptyWeather_def)
  show ?thesis
    using empty_forecast_statistics [OF empty, of hostUTC] by auto
qed

subsection \<open>The alert and the description\<close>

text \<open>
  Claim C7. With weather present, \<open>extremeWeather\<close> holds exactly when the current
  \<open>main\<close> is the string \<open>Extreme\<close> or the current description contains, up to letter
  case, one of the words typhoon, storm, hurricane, tornado, severe.
\<close>

theorem extremeWeather_iff:
  "extremeWeather (Some ws) \<longleftrightarrow>
     cur_weather0_main (current ws) = utf16 ''Extreme''
     \<or> (\<exists>word \<in> {utf16 ''typhoon'', utf16 ''storm'', utf16 ''hurricane'',
                   utf16 ''tornado'', utf16 ''severe''}.
          containsIgnoringCase (cur_weather0_description (current ws)) word)"
  by (simp add: extremeWeather_def test_ignoreCase_def severeWords_def
        includes_js_canonicalize del: includes_js.simps)

theorem extremeWeather_iff_witness:
  "extremeWeather (Some exampleWeather)
   \<and> (cur_weather0_main (current exampleWeather) = utf16 ''Extreme''
      \<or> (\<exists>word \<in> {utf16 ''typhoon'', utf16 ''storm'', utf16 ''hurricane'',
                    utf16 ''tornado'', utf16 ''severe''}.
           containsIgnoringCase (cur_weather0_description (current exampleWeather)) word))"
proof -
  have "extremeWeather (Some exampleWeather)"
    by (simp add: extremeWeather_def test_ignoreCase_def severeWords_def utf16_def
          canonicalize_def exampleWeather_def exampleCurrent_def)
  then show ?thesis
    using extremeWeather_iff [of exampleWeather] by blast
qed

lemma extremeWeather_no_weather: "\<not> extremeWeather None"
  by (simp add: extremeWeather_def test_ignoreCase_def severeWords_def utf16_def
        canonicalize_def)

lemma descriptionText_first:
  "d \<noteq> [] \<Longrightarrow> descriptionText u d = toUpperCase_unit u (hd d) @ tl d"
  by (cases d) (simp_all add: descriptionText_def charAt0_def slice1_def toUpperCase_def)

lemma descriptionText_latin1:
  "descriptionText latin1Upper ([233] @ utf16 ''claircies'') = [201] @ utf16 ''claircies''
   \<and> descriptionText latin1Upper ([223] @ utf16 ''torm'') = utf16 ''SStorm''"
  by (simp add: descriptionText_def charAt0_def slice1_def toUpperCase_def
        toUpperCase_unit_def latin1Upper_def utf16_def)

lemma length_capitalize_from: "length (capitalize_from r b s) = length s"
  by (induction s arbitrary: b) simp_all

lemma capitalize_from_nth:
  assumes "list_all (\<lambda>c. c = 32 \<or> (97 \<le> c \<and> c \<le> 122)) s" and "i < length s"
  shows "capitalize_from r b s ! i =
           (if 97 \<le> s ! i \<and> (if i = 0 then b else s ! (i - 1) = 32) then s ! i - 32 else s ! i)"
  using assms
proof (induction s arbitrary: b i)
  case Nil
  then show ?case by simp
next
  case (Cons c cs)
  have c: "c = 32 \<or> (97 \<le> c \<and> c \<le> 122)" using Cons.prems(1) by simp
  have ws: "isWhiteSpace c \<longleftrightarrow> c = 32"
    using c by (auto simp: isWhiteSpace_def)
  show ?case
  proof (cases i)
    case 0
    then show ?thesis using c by auto
  next
    case (Suc j)
    have "capitalize_from r (isWhiteSpace c) cs ! j =
        (if 97 \<le> cs ! j \<and> (if j = 0 then isWhiteSpace c else cs ! (j - 1) = 32)
         then cs ! j - 32 else cs ! j)"
      using Cons.prems Suc by (intro Cons.IH) simp_all
    then show ?thesis
      unfolding Suc by (cases j) (simp_all add: ws)
  qed
qed

lemma capitalize_from_upper_first:
  "capitalize_from r True ((if 97 \<le> c \<and> c \<le> 122 then c - 32 else c) # cs)
     = capitalize_from r True (c # cs)"
proof (cases "97 \<le> c \<and> c \<le> 122")
  case True
  then have "\<not> isWhiteSpace c" and "\<not> isWhiteSpace (c - 32)" and "\<not> 97 \<le> c - 32"
    by (auto simp: isWhiteSpace_def)
  with True show ?thesis by simp
next
  case False
  then have "(if 97 \<le> c \<and> c \<le> 122 then c - 32 else c) = c"
    by (rule if_not_P)
  then show ?thesis by (simp only:)
qed

lemma shownDescription_ascii_first:
  assumes "d \<noteq> []" and "hd d < 128"
  shows "shownDescription r u d = textTransform_capitalize r d"
proof (cases d)
  case Nil
  with assms show ?thesis by simp
next
  case (Cons c cs)
  then have "c < 128" using assms by simp
  then show ?thesis
    unfolding Cons shownDescription_def textTransform_capitalize_def
    by (simp add: descriptionText_def charAt0_def slice1_def toUpperCase_def
          toUpperCase_unit_def capitalize_from_upper_first del: capitalize_from.simps)
qed

text \<open>
  Claim C8, amended. For a description that is not empty, the text handed to the
  description element is the description with its first code unit upper-cased and the
  rest as it was: \<open>light rain\<close> gives \<open>Light rain\<close>. The element then draws it under
  \<open>textTransform: 'capitalize'\<close>. For a description of lower-case letters and spaces
  what is shown is the description with the first letter of every word in upper case:
  \<open>light rain\<close> is shown as \<open>Light Rain\<close>.
\<close>

theorem shownDescription_capitalized:
  assumes "d \<noteq> []"
  shows "descriptionText u d = toUpperCase_unit u (hd d) @ tl d
     \<and> shownDescription r u d = textTransform_capitalize r (toUpperCase_unit u (hd d) @ tl d)
     \<and> (list_all (\<lambda>c. c = 32 \<or> (97 \<le> c \<and> c \<le> 122)) d \<longrightarrow>
          length (shownDescription r u d) = length d
          \<and> (\<forall>i < length d.
                shownDescription r u d ! i =
                  (if 97 \<le> d ! i \<and> (i = 0 \<or> d ! (i - 1) = 32) then d ! i - 32 else d ! i)))"
proof (intro conjI impI allI)
  show first: "descriptionText u d = toUpperCase_unit u (hd d) @ tl d"
    using assms by (rule descriptionText_first)
  show "shownDescription r u d = textTransform_capitalize r (toUpperCase_unit u (hd d) @ tl d)"
    by (simp add: shownDescription_def first)
next
  assume words: "list_all (\<lambda>c. c = 32 \<or> (97 \<le> c \<and> c \<le> 122)) d"
  have "hd d \<in> set d" using assms by simp
  with words have "hd d < 128" by (auto simp: list_all_iff)
  with assms have shown: "shownDescription r u d = capitalize_from r True d"
    by (simp add: shownDescription_ascii_first textTransform_capitalize_def)
  show "length (shownDescription r u d) = length d"
    by (simp add: shown length_capitalize_from)
  fix i
  assume "i < length d"
  with words have "capitalize_from r True d ! i =
      (if 97 \<le> d ! i \<and> (if i = 0 then True else d ! (i - 1) = 32) then d ! i - 32 else d ! i)"
    by (rule capitalize_from_nth)
  then show "shownDescription r u d ! i =
      (if 97 \<le> d ! i \<and> (i = 0 \<or> d ! (i - 1) = 32) then d ! i - 32 else d ! i)"
    unfolding shown by (cases "i = 0") simp_all
qed

theorem shownDescription_capitalized_witness:
  "descriptionText latin1Upper (utf16 ''light rain'') = utf16 ''Light rain''
   \<and> length (shownDescription Native latin1Upper (utf16 ''light rain'')) = 10
   \<and> shownDescription Native latin1Upper (utf16 ''light rain'') ! 0 = 76
   \<and> shownDescription Native latin1Upper (utf16 ''light rain'') ! 6 = 82
   \<and> shownDescription Native latin1Upper (utf16 ''light rain'') ! 7 = 97"
proof -
  have nonempty: "utf16 ''light rain'' \<noteq> []"
    by (simp add: utf16_def)
  have words: "list_all (\<lambda>c. c = 32 \<or> (97 \<le> c \<and> c \<le> 122)) (utf16 ''light rain'')"
    by (simp add: utf16_def)
  note shown = shownDescription_capitalized [OF nonempty, of latin1Upper Native]
  from shown have "descriptionText latin1Upper (utf16 ''light rain'') = utf16 ''Light rain''"
    by (simp add: utf16_def toUpperCase_unit_def)
  moreover from shown words
  have len: "length (shownDescription Native latin1Upper (utf16 ''light rain''))
      = length (utf16 ''light rain'')"
    and nth: "\<forall>i < length (utf16 ''light rain'').
      shownDescription Native latin1Upper (utf16 ''light rain'') ! i =
        (if 97 \<le> utf16 ''light rain'' ! i \<and> (i = 0 \<or> utf16 ''light rain'' ! (i - 1) = 32)
         then utf16 ''light rain'' ! i - 32 else utf16 ''light rain'' ! i)"
    by blast+
  have "length (utf16 ''light rain'') = 10" by (simp add: utf16_def)
  moreover have "shownDescription Native latin1Upper (utf16 ''light rain'') ! 0 = 76"
    using nth [rule_format, of 0] by (simp add: utf16_def)
  moreover have "shownDescription Native latin1Upper (utf16 ''light rain'') ! 6 = 82"
    using nth [rule_format, of 6] by (simp add: utf16_def)
  moreover have "shownDescription Native latin1Upper (utf16 ''light rain'') ! 7 = 97"
    using nth [rule_format, of 7] by (simp add: utf16_def)
  ultimately show ?thesis using len by simp
qed

text \<open>
  The claim as it was made, that what is shown has only its first character in upper
  case and no later word title-cased, fails: \<open>light rain\<close> is shown as \<open>Light Rain\<close> by
  either renderer.
\<close>

theorem shownDescription_title_cased_counterexample:
  "shownDescription Native latin1Upper (utf16 ''light rain'') = utf16 ''Light Rain''
   \<and> shownDescription Web latin1Upper (utf16 ''light rain'') = utf16 ''Light Rain''
   \<and> utf16 ''Light Rain'' \<noteq> utf16 ''Light rain''"
  by (simp add: shownDescription_def textTransform_capitalize_def descriptionText_def
        charAt0_def slice1_def toUpperCase_def toUpperCase_unit_def isWhiteSpace_def
        utf16_def)


subsection \<open>The search\<close>

lemma msgNotFound_neq: "msgNotFound \<noteq> msgEnterCity"
  by (simp add: msgNotFound_def msgEnterCity_def utf16_def)

lemma msgEnterCity_nonempty: "msgEnterCity \<noteq> []"
  by (simp add: msgEnterCity_def)

text \<open>
  Claim C9. When every code unit of the city is white space (the empty city included),
  \<open>fetchWeather\<close> only sets the error to the message asking for a city and issues no
  request. When some code unit is not white space, the first request goes out for the
  city as typed, and the error is not that message.
\<close>

theorem fetchWeather_blank_city:
  "(list_all isWhiteSpace (city st) \<longrightarrow>
      fetchWeather gw st = (st\<lparr>error := msgEnterCity\<rparr>, []))
   \<and> (\<not> list_all isWhiteSpace (city st) \<longrightarrow>
      hd (snd (fetchWeather gw st)) = WeatherRequest (city st)
      \<and> snd (fetchWeather gw st) \<noteq> []
      \<and> error (fst (fetchWeather gw st)) \<noteq> msgEnterCity)"
proof (intro conjI impI)
  assume "list_all isWhiteSpace (city st)"
  then show "fetchWeather gw st = (st\<lparr>error := msgEnterCity\<rparr>, [])"
    by (simp add: fetchWeather_def trim_empty_iff)
next
  assume "\<not> list_all isWhiteSpace (city st)"
  then have t: "trim (city st) \<noteq> []" by (simp add: trim_empty_iff)
  show "hd (snd (fetchWeather gw st)) = WeatherRequest (city st)"
    using t by (simp add: fetchWeather_def Let_def split: option.splits)
  show "snd (fetchWeather gw st) \<noteq> []"
    using t by (simp add: fetchWeather_def Let_def split: option.splits)
  show "error (fst (fetchWeather gw st)) \<noteq> msgEnterCity"
    using t msgNotFound_neq msgEnterCity_nonempty
    by (auto simp: fetchWeather_def Let_def split: option.splits)
qed

theorem fetchWeather_blank_city_witness:
  "fetchWeather exampleGateway (exampleState ''   '')
     = ((exampleState ''   '')\<lparr>error := msgEnterCity\<rparr>, [])
   \<and> fetchWeather exampleGateway (exampleState [])
     = ((exampleState [])\<lparr>error := msgEnterCity\<rparr>, [])
   \<and> snd (fetchWeather exampleGateway (exampleState ''Macau'')) \<noteq> []
   \<and> error (fst (fetchWeather exampleGateway (exampleState ''Macau''))) \<noteq> msgEnterCity"
proof -
  have blank: "list_all isWhiteSpace (city (exampleState ''   ''))"
    by (simp add: exampleState_def utf16_def isWhiteSpace_def)
  have empty: "list_all isWhiteSpace (city (exampleState []))"
    by (simp add: exampleState_def utf16_def)
  have macau: "\<not> list_all isWhiteSpace (city (exampleState ''Macau''))"
    by (simp add: exampleState_def utf16_def isWhiteSpace_def)
  show ?thesis
    using fetchWeather_blank_city [of "exampleState ''   ''" exampleGateway]
      fetchWeather_blank_city [of "exampleState []" exampleGateway]
      fetchWeather_blank_city [of "exampleState ''Macau''" exampleGateway]
      blank empty macau
    by blast
qed

end
